theory Spec2Isabelle
  imports Main "HOL-Library.Char_ord" "HOL-Library.List_Lexorder"
begin

section \<open>JavaScript values\<close>

text \<open>
  The values a JSON request body can carry, plus \<open>undefined\<close> (what reading an absent
  property gives). Numbers are integers here: the handlers only ask whether a number is
  zero (\<open>NaN\<close> cannot arrive in a JSON body).
\<close>

datatype jsval =
    JUndefined
  | JNull
  | JBool bool
  | JNum int
  | JStr string
  | JArr "jsval list"
  | JObj "(string \<times> jsval) list"

text \<open>The \<open>typeof\<close> operator.\<close>

fun typeof :: "jsval \<Rightarrow> string" where
  "typeof JUndefined = ''undefined''"
| "typeof JNull = ''object''"
| "typeof (JBool b) = ''boolean''"
| "typeof (JNum n) = ''number''"
| "typeof (JStr s) = ''string''"
| "typeof (JArr xs) = ''object''"
| "typeof (JObj fs) = ''object''"

text \<open>Truthiness, as \<open>!v\<close> and \<open>v || w\<close> use it.\<close>

fun truthy :: "jsval \<Rightarrow> bool" where
  "truthy JUndefined = False"
| "truthy JNull = False"
| "truthy (JBool b) = b"
| "truthy (JNum n) = (n \<noteq> 0)"
| "truthy (JStr s) = (s \<noteq> [])"
| "truthy (JArr xs) = True"
| "truthy (JObj fs) = True"

text \<open>\<open>v || w\<close>\<close>

definition js_or :: "jsval \<Rightarrow> jsval \<Rightarrow> jsval" where
  "js_or v w = (if truthy v then v else w)"

text \<open>
  Reading a named property, for the names the handlers read (\<open>permissions\<close> and the five
  flag names): an object gives the field or \<open>undefined\<close>; an array and a primitive have no
  property of these names. Reading from \<open>undefined\<close> or \<open>null\<close> throws; the handlers
  test for that before calling \<open>get_prop\<close>.
\<close>

fun get_prop :: "jsval \<Rightarrow> string \<Rightarrow> jsval" where
  "get_prop (JObj fs) k = (case map_of fs k of Some v \<Rightarrow> v | None \<Rightarrow> JUndefined)"
| "get_prop v k = JUndefined"

definition nullish :: "jsval \<Rightarrow> bool" where
  "nullish v = (v = JUndefined \<or> v = JNull)"

text \<open>What a \<open>catch\<close> block receives: an \<open>Error\<close> object with its message, or any other thrown value.\<close>

datatype exn = ErrorObj string | NonError jsval

section \<open>The permission documents and their collection\<close>

text \<open>
  The five flags of a permissions subdocument. A flag the stored record does not have
  reads as \<open>undefined\<close>.
\<close>

record permission_flags =
  myRequirements :: jsval
  manageLocation :: jsval
  myCalendar :: jsval
  allEvents :: jsval
  taggedDepartments :: jsval

text \<open>
  A DepartmentPermissions document: the department, the permissions subdocument
  (\<open>None\<close> when the record has none) and the reference to the updating user
  (\<open>undefined\<close> when absent).
\<close>

record perm_doc =
  department :: string
  permissions :: "permission_flags option"
  updatedBy :: jsval

type_synonym collection = "perm_doc list"

text \<open>The options of \<open>findOneAndUpdate\<close>; a call without options has all three false.\<close>

record query_options =
  new :: bool
  upsert :: bool
  runValidators :: bool

text \<open>
  Modelled from the spec: the schema of the model \<open>DepartmentPermissions\<close>
  (\<open>../models/DepartmentPermissions\<close>) is not among the sources. The spec types the five
  flags as booleans. A boolean is kept and an absent flag stays absent; what the schema
  does with any other value, cast it to a boolean or fail, is the parameter \<open>coerce\<close>.
\<close>

type_synonym schema = "jsval \<Rightarrow> exn + bool"

definition schema_flag :: "schema \<Rightarrow> jsval \<Rightarrow> exn + jsval" where
  "schema_flag coerce v =
     (case v of
        JUndefined \<Rightarrow> Inr JUndefined
      | JBool b \<Rightarrow> Inr (JBool b)
      | _ \<Rightarrow> (case coerce v of Inl e \<Rightarrow> Inl e | Inr b \<Rightarrow> Inr (JBool b)))"

definition schema_flags :: "schema \<Rightarrow> permission_flags \<Rightarrow> exn + permission_flags" where
  "schema_flags coerce p =
     (case schema_flag coerce (myRequirements p) of Inl e \<Rightarrow> Inl e | Inr v1 \<Rightarrow>
      case schema_flag coerce (manageLocation p) of Inl e \<Rightarrow> Inl e | Inr v2 \<Rightarrow>
      case schema_flag coerce (myCalendar p) of Inl e \<Rightarrow> Inl e | Inr v3 \<Rightarrow>
      case schema_flag coerce (allEvents p) of Inl e \<Rightarrow> Inl e | Inr v4 \<Rightarrow>
      case schema_flag coerce (taggedDepartments p) of Inl e \<Rightarrow> Inl e | Inr v5 \<Rightarrow>
        Inr \<lparr>myRequirements = v1, manageLocation = v2, myCalendar = v3, allEvents = v4,
             taggedDepartments = v5\<rparr>)"

text \<open>
  Modelled from the spec: what \<open>runValidators: true\<close> adds to an update. The flags of the
  updated document go through the schema before anything is written; without the option
  the document is written as the update leaves it.
\<close>

definition validated :: "schema \<Rightarrow> query_options \<Rightarrow> perm_doc \<Rightarrow> exn + perm_doc" where
  "validated coerce opts doc =
     (if runValidators opts
      then (case permissions doc of
              None \<Rightarrow> Inr doc
            | Some p \<Rightarrow>
                (case schema_flags coerce p of
                   Inl e \<Rightarrow> Inl e
                 | Inr p' \<Rightarrow> Inr (doc\<lparr>permissions := Some p'\<rparr>)))
      else Inr doc)"

text \<open>A schema that fails on every value that is not a boolean, for the instances below.\<close>

definition strict_schema :: schema where
  "strict_schema v = Inl (ErrorObj ''Cast to Boolean failed'')"

fun update_first :: "('a \<Rightarrow> bool) \<Rightarrow> ('a \<Rightarrow> 'a) \<Rightarrow> 'a list \<Rightarrow> 'a list" where
  "update_first P f [] = []"
| "update_first P f (x # xs) = (if P x then f x # xs else x # update_first P f xs)"

text \<open>
  Modelled from the spec: the model \<open>DepartmentPermissions\<close> (\<open>../models/DepartmentPermissions\<close>)
  is not among the sources. The spec gives the record shape and "upserts by department
  key"; the collection is the list of its documents, and \<open>fault\<close> is the storage failure,
  if any, that the call meets (a failing call leaves the collection as it was).
  \<open>findOne({ department })\<close> gives the first document of that department, or null.
\<close>

definition findOne :: "exn option \<Rightarrow> collection \<Rightarrow> string \<Rightarrow> exn + perm_doc option" where
  "findOne fault db d =
     (case fault of
        Some e \<Rightarrow> Inl e
      | None \<Rightarrow> Inr (find (\<lambda>doc. department doc = d) db))"

text \<open>
  Modelled from the spec: \<open>findOneAndUpdate({ department }, update, options)\<close>. The update
  is the function it applies to the matched document (the first of that department);
  with \<open>upsert\<close> and no match, a new document is made from the filter and the update. The
  result is the document after the update with \<open>new\<close>, the one before it without. A
  storage failure (\<open>fault\<close>) or a schema failure leaves the collection as it was.
\<close>

definition findOneAndUpdate ::
  "schema \<Rightarrow> exn option \<Rightarrow> collection \<Rightarrow> string \<Rightarrow> (perm_doc \<Rightarrow> perm_doc) \<Rightarrow> query_options
     \<Rightarrow> exn + (perm_doc option \<times> collection)" where
  "findOneAndUpdate coerce fault db d update opts =
     (case fault of
        Some e \<Rightarrow> Inl e
      | None \<Rightarrow>
          (case find (\<lambda>doc. department doc = d) db of
             Some old \<Rightarrow>
               (case validated coerce opts (update old) of
                  Inl e \<Rightarrow> Inl e
                | Inr doc' \<Rightarrow>
                    Inr (Some (if new opts then doc' else old),
                         update_first (\<lambda>doc. department doc = d) (\<lambda>_. doc') db))
           | None \<Rightarrow>
               if upsert opts
               then (case validated coerce opts
                            (update \<lparr>department = d, permissions = None, updatedBy = JUndefined\<rparr>) of
                       Inl e \<Rightarrow> Inl e
                     | Inr fresh \<Rightarrow> Inr (if new opts then Some fresh else None, db @ [fresh]))
               else Inr (None, db)))"

text \<open>
  An update object with dotted keys, as the single-department read builds it: each key
  \<open>permissions.<flag>\<close> sets that flag of the subdocument.
\<close>

definition set_flag :: "string \<Rightarrow> jsval \<Rightarrow> permission_flags \<Rightarrow> permission_flags" where
  "set_flag k v p =
     (if k = ''permissions.myRequirements'' then p\<lparr>myRequirements := v\<rparr>
      else if k = ''permissions.manageLocation'' then p\<lparr>manageLocation := v\<rparr>
      else if k = ''permissions.myCalendar'' then p\<lparr>myCalendar := v\<rparr>
      else if k = ''permissions.allEvents'' then p\<lparr>allEvents := v\<rparr>
      else if k = ''permissions.taggedDepartments'' then p\<lparr>taggedDepartments := v\<rparr>
      else p)"

definition no_flags :: permission_flags where
  "no_flags = \<lparr>myRequirements = JUndefined, manageLocation = JUndefined, myCalendar = JUndefined,
               allEvents = JUndefined, taggedDepartments = JUndefined\<rparr>"

definition set_path :: "string \<times> jsval \<Rightarrow> perm_doc \<Rightarrow> perm_doc" where
  "set_path kv doc =
     doc\<lparr>permissions :=
           Some (set_flag (fst kv) (snd kv)
                   (case permissions doc of Some p \<Rightarrow> p | None \<Rightarrow> no_flags))\<rparr>"

definition apply_updates :: "(string \<times> jsval) list \<Rightarrow> perm_doc \<Rightarrow> perm_doc" where
  "apply_updates updates doc = fold set_path updates doc"

text \<open>
  \<open>.populate('updatedBy', 'name email')\<close>: the reference is replaced by what the user
  collection holds for it (\<open>users\<close>, a parameter: the user model is not among the sources).
\<close>

definition populate :: "(string \<Rightarrow> jsval) \<Rightarrow> perm_doc \<Rightarrow> perm_doc" where
  "populate users doc =
     (case updatedBy doc of
        JStr uid \<Rightarrow> doc\<lparr>updatedBy := users uid\<rparr>
      | _ \<Rightarrow> doc)"

section \<open>Requests and responses\<close>

text \<open>
  What the permission handlers read of a request: \<open>req.params.department\<close>, \<open>req.body\<close>
  and \<open>req.user.id\<close> (set by the authentication middleware).
\<close>

record request =
  params_department :: string
  body :: jsval
  user_id :: string

text \<open>The values of the keys of a response body.\<close>

datatype payload =
    B bool
  | S string
  | Doc perm_doc
  | Docs "perm_doc list"
  | J jsval

record response =
  status :: nat
  json :: "(string \<times> payload) list"

text \<open>
  The calls of \<open>console.error\<close> a handler makes: the label and the error caught. The
  informational \<open>console.log\<close> lines are left out.
\<close>

type_synonym console = "(string \<times> exn) list"

section \<open>The permission routes\<close>

text \<open>
  \<open>GET /:department\<close>. The three steps below are the three \<open>if\<close>s of the handler: each
  sets a flag that is \<open>undefined\<close> on the document in memory, adds the dotted key to
  \<open>updates\<close> and raises \<open>needsUpdate\<close>.
\<close>

type_synonym backfill_state = "perm_doc \<times> (string \<times> jsval) list \<times> bool"

definition backfill_myCalendar :: "backfill_state \<Rightarrow> backfill_state" where
  "backfill_myCalendar st =
     (case st of (doc, updates, needsUpdate) \<Rightarrow>
        (case permissions doc of
           Some p \<Rightarrow>
             if typeof (myCalendar p) = ''undefined''
             then (doc\<lparr>permissions := Some (p\<lparr>myCalendar := JBool False\<rparr>)\<rparr>,
                   updates @ [(''permissions.myCalendar'', JBool False)], True)
             else st
         | None \<Rightarrow> st))"

definition backfill_allEvents :: "backfill_state \<Rightarrow> backfill_state" where
  "backfill_allEvents st =
     (case st of (doc, updates, needsUpdate) \<Rightarrow>
        (case permissions doc of
           Some p \<Rightarrow>
             if typeof (allEvents p) = ''undefined''
             then (doc\<lparr>permissions := Some (p\<lparr>allEvents := JBool False\<rparr>)\<rparr>,
                   updates @ [(''permissions.allEvents'', JBool False)], True)
             else st
         | None \<Rightarrow> st))"

definition backfill_taggedDepartments :: "backfill_state \<Rightarrow> backfill_state" where
  "backfill_taggedDepartments st =
     (case st of (doc, updates, needsUpdate) \<Rightarrow>
        (case permissions doc of
           Some p \<Rightarrow>
             if typeof (taggedDepartments p) = ''undefined''
             then (doc\<lparr>permissions := Some (p\<lparr>taggedDepartments := JBool False\<rparr>)\<rparr>,
                   updates @ [(''permissions.taggedDepartments'', JBool False)], True)
             else st
         | None \<Rightarrow> st))"

definition default_permissions :: "string \<Rightarrow> perm_doc" where
  "default_permissions d =
     \<lparr>department = d,
      permissions = Some \<lparr>myRequirements = JBool False, manageLocation = JBool False,
                          myCalendar = JBool False, allEvents = JBool False,
                          taggedDepartments = JBool False\<rparr>,
      updatedBy = JUndefined\<rparr>"

definition fetch_failed :: "exn \<Rightarrow> collection \<Rightarrow> response \<times> collection \<times> console" where
  "fetch_failed e db =
     (\<lparr>status = 500,
       json = [(''success'', B False), (''message'', S ''Failed to fetch department permissions'')]\<rparr>,
      db,
      [(''Error fetching department permissions:'', e)])"

definition get_handler ::
  "schema \<Rightarrow> exn option \<Rightarrow> exn option \<Rightarrow> request \<Rightarrow> collection
     \<Rightarrow> response \<times> collection \<times> console" where
  "get_handler coerce fault1 fault2 req db =
     (let d = params_department req in
      case findOne fault1 db d of
        Inl e \<Rightarrow> fetch_failed e db
      | Inr None \<Rightarrow>
          (\<lparr>status = 200, json = [(''success'', B True), (''data'', Doc (default_permissions d))]\<rparr>,
           db, [])
      | Inr (Some found) \<Rightarrow>
          (case backfill_taggedDepartments (backfill_allEvents (backfill_myCalendar (found, [], False)))
           of (doc, updates, needsUpdate) \<Rightarrow>
             if needsUpdate
             then (case findOneAndUpdate coerce fault2 db d (apply_updates updates)
                          \<lparr>new = False, upsert = False, runValidators = False\<rparr> of
                     Inl e \<Rightarrow> fetch_failed e db
                   | Inr (old, db') \<Rightarrow>
                       (\<lparr>status = 200, json = [(''success'', B True), (''data'', Doc doc)]\<rparr>, db', []))
             else (\<lparr>status = 200, json = [(''success'', B True), (''data'', Doc doc)]\<rparr>, db, [])))"

text \<open>
  Modelled from the spec: \<open>find().populate('updatedBy', 'name email').sort({ department: 1 })\<close>,
  "every department's permissions sorted by department name, with updater identity
  resolved".
\<close>

definition find_all :: "exn option \<Rightarrow> (string \<Rightarrow> jsval) \<Rightarrow> collection \<Rightarrow> exn + perm_doc list" where
  "find_all fault users db =
     (case fault of
        Some e \<Rightarrow> Inl e
      | None \<Rightarrow> Inr (sort_key department (map (populate users) db)))"

text \<open>\<open>GET /\<close>\<close>

definition get_all_handler ::
  "exn option \<Rightarrow> (string \<Rightarrow> jsval) \<Rightarrow> collection \<Rightarrow> response \<times> collection \<times> console" where
  "get_all_handler fault users db =
     (case find_all fault users db of
        Inl e \<Rightarrow>
          (\<lparr>status = 500,
            json = [(''success'', B False), (''message'', S ''Failed to fetch department permissions'')]\<rparr>,
           db,
           [(''Error fetching all department permissions:'', e)])
      | Inr docs \<Rightarrow>
          (\<lparr>status = 200, json = [(''success'', B True), (''data'', Docs docs)]\<rparr>, db, []))"

text \<open>
  \<open>PUT /:department\<close>. Destructuring \<open>req.body\<close> throws a TypeError inside the \<open>try\<close> when
  the body is \<open>undefined\<close> or \<open>null\<close> (the text of the engine's message is not modelled).
\<close>

definition destructure_error :: exn where
  "destructure_error = ErrorObj ''Cannot destructure property permissions of req.body''"

definition update_failed :: "exn \<Rightarrow> collection \<Rightarrow> response \<times> collection \<times> console" where
  "update_failed e db =
     (\<lparr>status = 500,
       json = [(''success'', B False), (''message'', S ''Failed to update department permissions'')]\<rparr>,
      db,
      [(''Error updating department permissions:'', e)])"

definition put_handler ::
  "schema \<Rightarrow> exn option \<Rightarrow> (string \<Rightarrow> jsval) \<Rightarrow> request \<Rightarrow> collection
     \<Rightarrow> response \<times> collection \<times> console" where
  "put_handler coerce fault users req db =
     (let d = params_department req in
      if nullish (body req) then update_failed destructure_error db
      else
        let perms = get_prop (body req) ''permissions'';
            userId = user_id req
        in
        if \<not> truthy perms \<or> typeof perms \<noteq> ''object''
        then (\<lparr>status = 400,
               json = [(''success'', B False), (''message'', S ''Invalid permissions data'')]\<rparr>,
              db, [])
        else
          let myRequirements' = get_prop perms ''myRequirements'';
              manageLocation' = get_prop perms ''manageLocation'';
              myCalendar' = get_prop perms ''myCalendar'';
              allEvents' = get_prop perms ''allEvents'';
              taggedDepartments' = get_prop perms ''taggedDepartments''
          in
          if typeof myRequirements' \<noteq> ''boolean'' \<or> typeof manageLocation' \<noteq> ''boolean''
             \<or> typeof myCalendar' \<noteq> ''boolean''
          then (\<lparr>status = 400,
                 json = [(''success'', B False), (''message'', S ''Permission values must be boolean'')]\<rparr>,
                db, [])
          else
            (case findOneAndUpdate coerce fault db d
                    (\<lambda>doc. doc\<lparr>department := d,
                                permissions :=
                                  Some \<lparr>myRequirements = myRequirements',
                                        manageLocation = manageLocation',
                                        myCalendar = myCalendar',
                                        allEvents = js_or allEvents' (JBool False),
                                        taggedDepartments = js_or taggedDepartments' (JBool False)\<rparr>,
                                updatedBy := JStr userId\<rparr>)
                    \<lparr>new = True, upsert = True, runValidators = True\<rparr> of
               Inl e \<Rightarrow> update_failed e db
             | Inr (updatedPermissions, db') \<Rightarrow>
                 (\<lparr>status = 200,
                   json = [(''success'', B True),
                           (''message'', S ''Department permissions updated successfully'')]
                          @ (case updatedPermissions of
                               Some u \<Rightarrow> [(''data'', Doc (populate users u))]
                             | None \<Rightarrow> [(''data'', J JNull)])\<rparr>,
                  db', [])))"

text \<open>\<open>DELETE /:department\<close>: the reset.\<close>

definition delete_handler ::
  "schema \<Rightarrow> exn option \<Rightarrow> (string \<Rightarrow> jsval) \<Rightarrow> request \<Rightarrow> collection
     \<Rightarrow> response \<times> collection \<times> console" where
  "delete_handler coerce fault users req db =
     (let d = params_department req;
          userId = user_id req
      in
      case findOneAndUpdate coerce fault db d
             (\<lambda>doc. doc\<lparr>department := d,
                         permissions :=
                           Some \<lparr>myRequirements = JBool True, manageLocation = JBool True,
                                 myCalendar = JBool True, allEvents = JBool True,
                                 taggedDepartments = JBool True\<rparr>,
                         updatedBy := JStr userId\<rparr>)
             \<lparr>new = True, upsert = True, runValidators = True\<rparr> of
        Inl e \<Rightarrow>
          (\<lparr>status = 500,
            json = [(''success'', B False), (''message'', S ''Failed to reset department permissions'')]\<rparr>,
           db,
           [(''Error resetting department permissions:'', e)])
      | Inr (defaultPermissions, db') \<Rightarrow>
          (\<lparr>status = 200,
            json = [(''success'', B True),
                    (''message'', S ''Department permissions reset to defaults'')]
                   @ (case defaultPermissions of
                        Some u \<Rightarrow> [(''data'', Doc (populate users u))]
                      | None \<Rightarrow> [(''data'', J JNull)])\<rparr>,
           db', []))"

section \<open>The server: CORS, presence and the manual cleanup\<close>

text \<open>
  \<open>POST /api/cleanup-now\<close>. \<open>runCleanupNow\<close> (\<open>./services/scheduler.js\<close>) is not among
  the sources: the handler takes what awaiting it gives, a result or a thrown value.
\<close>

definition cleanup_now_handler :: "exn + jsval \<Rightarrow> response \<times> console" where
  "cleanup_now_handler outcome =
     (case outcome of
        Inr result \<Rightarrow>
          (\<lparr>status = 200,
            json = [(''success'', B True), (''message'', S ''Cleanup completed successfully''),
                    (''result'', J result)]\<rparr>,
           [])
      | Inl e \<Rightarrow>
          (\<lparr>status = 500,
            json = [(''success'', B False), (''message'', S ''Cleanup failed''),
                    (''error'', S (case e of ErrorObj m \<Rightarrow> m | NonError v \<Rightarrow> ''Unknown error''))]\<rparr>,
           [(''Manual cleanup failed:'', e)]))"

text \<open>
  The allow-list: \<open>process.env.CORS_ORIGINS\<close> split at commas when it is set and not
  empty, the three localhost origins otherwise.
\<close>

fun split_comma :: "string \<Rightarrow> string \<Rightarrow> string list" where
  "split_comma acc [] = [rev acc]"
| "split_comma acc (c # cs) =
     (if c = CHR '','' then rev acc # split_comma [] cs else split_comma (c # acc) cs)"

definition allowedOrigins :: "string option \<Rightarrow> string list" where
  "allowedOrigins env =
     (case env of
        None \<Rightarrow> [''http://localhost:5173'', ''http://localhost:8080'', ''http://localhost:3000'']
      | Some v \<Rightarrow>
          if v = [] then [''http://localhost:5173'', ''http://localhost:8080'', ''http://localhost:3000'']
          else split_comma [] v)"

text \<open>\<open>Array.prototype.indexOf\<close>: the first index of the element, or -1.\<close>

fun indexOf :: "'a list \<Rightarrow> 'a \<Rightarrow> int" where
  "indexOf [] x = -1"
| "indexOf (y # ys) x =
     (if y = x then 0 else (let i = indexOf ys x in if i = -1 then -1 else i + 1))"

text \<open>What an origin callback calls back with: \<open>callback(null, true)\<close> or \<open>callback(new Error(...))\<close>.\<close>

datatype cors_verdict = Allowed | Blocked string

text \<open>
  The origin callback of the Socket.IO server and the one of the HTTP \<open>cors\<close> middleware;
  \<open>origin\<close> is \<open>None\<close> when the request has no Origin header.
\<close>

definition io_cors_origin :: "string list \<Rightarrow> string option \<Rightarrow> cors_verdict" where
  "io_cors_origin allowed origin =
     (case origin of
        None \<Rightarrow> Allowed
      | Some v \<Rightarrow>
          if v = [] then Allowed
          else if indexOf allowed v \<noteq> -1 then Allowed
          else Blocked ''Not allowed by CORS'')"

definition http_cors_origin :: "string list \<Rightarrow> string option \<Rightarrow> cors_verdict" where
  "http_cors_origin allowed origin =
     (case origin of
        None \<Rightarrow> Allowed
      | Some v \<Rightarrow>
          if v = [] then Allowed
          else if indexOf allowed v \<noteq> -1 then Allowed
          else Blocked ''Not allowed by CORS'')"

text \<open>
  \<open>connectedUsers\<close>, a JavaScript \<open>Map\<close> from user id to socket id: its entries in
  insertion order. \<open>set\<close> on a present key replaces the value in place, on an absent key
  appends; \<open>delete\<close> removes the key's entry. User ids are compared as the \<open>Map\<close> compares
  them, which for strings and numbers is equality.
\<close>

type_synonym 'u presence = "('u \<times> string) list"

definition Map_has :: "'u presence \<Rightarrow> 'u \<Rightarrow> bool" where
  "Map_has m k = (k \<in> fst ` set m)"

definition Map_get :: "'u presence \<Rightarrow> 'u \<Rightarrow> string option" where
  "Map_get m k = map_of m k"

fun Map_set :: "'u presence \<Rightarrow> 'u \<Rightarrow> string \<Rightarrow> 'u presence" where
  "Map_set [] k v = [(k, v)]"
| "Map_set ((k', v') # m) k v = (if k' = k then (k, v) # m else (k', v') # Map_set m k v)"

definition Map_delete :: "'u presence \<Rightarrow> 'u \<Rightarrow> 'u presence" where
  "Map_delete m k = filter (\<lambda>e. fst e \<noteq> k) m"

text \<open>
  \<open>socket.on('join-user-room', ...)\<close> on the socket \<open>socket_id\<close>: what it does to
  \<open>connectedUsers\<close> (the rooms are the Socket.IO server's own state).
\<close>

definition join_user_room :: "string \<Rightarrow> 'u \<Rightarrow> 'u presence \<Rightarrow> 'u presence" where
  "join_user_room socket_id userId connectedUsers =
     (if Map_has connectedUsers userId
      then (case Map_get connectedUsers userId of
              Some oldSocketId \<Rightarrow>
                if oldSocketId \<noteq> socket_id then Map_set connectedUsers userId socket_id
                else connectedUsers
            | None \<Rightarrow> Map_set connectedUsers userId socket_id)
      else Map_set connectedUsers userId socket_id)"

text \<open>
  \<open>socket.on('disconnect', ...)\<close>: the loop over the entries, which deletes the key of
  the first entry whose socket id is the disconnecting one and breaks.
\<close>

fun disconnect_scan :: "string \<Rightarrow> 'u presence \<Rightarrow> 'u presence \<Rightarrow> 'u presence" where
  "disconnect_scan socket_id [] connectedUsers = connectedUsers"
| "disconnect_scan socket_id ((userId, socketId) # rest) connectedUsers =
     (if socketId = socket_id then Map_delete connectedUsers userId
      else disconnect_scan socket_id rest connectedUsers)"

definition disconnect :: "string \<Rightarrow> 'u presence \<Rightarrow> 'u presence" where
  "disconnect socket_id connectedUsers = disconnect_scan socket_id connectedUsers connectedUsers"

section \<open>Facts about the collection and the values\<close>

lemma find_update_first_hit:
  "find P xs = Some x \<Longrightarrow> P (f x) \<Longrightarrow> find P (update_first P f xs) = Some (f x)"
  by (induction xs) (auto split: if_splits)

lemma update_first_miss: "find P xs = None \<Longrightarrow> update_first P f xs = xs"
  by (induction xs) (auto split: if_splits)

lemma update_first_same:
  "find P xs = Some x \<Longrightarrow> update_first P (\<lambda>_. x) xs = xs"
  by (induction xs) (auto split: if_splits)

lemma update_first_const:
  "find P xs = Some x \<Longrightarrow> update_first P f xs = update_first P (\<lambda>_. f x) xs"
  by (induction xs) (auto split: if_splits)

lemma find_append_miss:
  "find P xs = None \<Longrightarrow> find P (xs @ [y]) = (if P y then Some y else None)"
  by (induction xs) (auto split: if_splits)

lemma find_None_iff_dept:
  "(find (\<lambda>doc. department doc = d) db = None) = (\<forall>doc \<in> set db. department doc \<noteq> d)"
  by (induction db) auto

lemma typeof_undefined: "(typeof v = ''undefined'') = (v = JUndefined)"
  by (cases v) auto


section \<open>The permission routes: the claims\<close>

text \<open>
  C1. When the collection holds no record of the requested department, \<open>GET /:department\<close>
  answers 200 with \<open>success: true\<close> and a synthesized document whose five flags are all
  false, and the collection is left exactly as it was. Whatever the storage does, the
  status is never 404 and nothing is written.
\<close>

theorem get_absent_department_defaults:
  assumes "\<forall>doc \<in> set db. department doc \<noteq> params_department req"
  shows "get_handler coerce None fault2 req db =
           (\<lparr>status = 200,
             json = [(''success'', B True),
                     (''data'', Doc \<lparr>department = params_department req,
                                    permissions = Some \<lparr>myRequirements = JBool False,
                                                        manageLocation = JBool False,
                                                        myCalendar = JBool False,
                                                        allEvents = JBool False,
                                                        taggedDepartments = JBool False\<rparr>,
                                    updatedBy = JUndefined\<rparr>)]\<rparr>,
            db, [])
         \<and> fst (snd (get_handler coerce fault1 fault2 req db)) = db
         \<and> status (fst (get_handler coerce fault1 fault2 req db)) \<noteq> 404"
proof -
  have none: "find (\<lambda>doc. department doc = params_department req) db = None"
    using assms by (simp add: find_None_iff_dept)
  show ?thesis
    using none
    by (cases fault1) (simp_all add: get_handler_def findOne_def default_permissions_def fetch_failed_def)
qed

theorem get_absent_department_defaults_witness:
  "list_all (\<lambda>doc. department doc \<noteq> ''Engineering'')
       [\<lparr>department = ''HR'', permissions = None, updatedBy = JUndefined\<rparr>]
   \<and> get_handler strict_schema None None \<lparr>params_department = ''Engineering'', body = JUndefined, user_id = ''u1''\<rparr>
        [\<lparr>department = ''HR'', permissions = None, updatedBy = JUndefined\<rparr>] =
           (\<lparr>status = 200,
             json = [(''success'', B True),
                     (''data'', Doc \<lparr>department = ''Engineering'',
                                    permissions = Some \<lparr>myRequirements = JBool False,
                                                        manageLocation = JBool False,
                                                        myCalendar = JBool False,
                                                        allEvents = JBool False,
                                                        taggedDepartments = JBool False\<rparr>,
                                    updatedBy = JUndefined\<rparr>)]\<rparr>,
            [\<lparr>department = ''HR'', permissions = None, updatedBy = JUndefined\<rparr>], [])"
  using get_absent_department_defaults
          [where db = "[\<lparr>department = ''HR'', permissions = None, updatedBy = JUndefined\<rparr>]"
             and req = "\<lparr>params_department = ''Engineering'', body = JUndefined, user_id = ''u1''\<rparr>"
             and coerce = strict_schema and ?fault1.0 = None and ?fault2.0 = None]
  by simp




lemmas handler_defs =
  get_handler_def get_all_handler_def put_handler_def delete_handler_def findOne_def
  findOneAndUpdate_def find_all_def fetch_failed_def update_failed_def default_permissions_def
  backfill_myCalendar_def backfill_allEvents_def backfill_taggedDepartments_def
  apply_updates_def set_path_def set_flag_def no_flags_def populate_def js_or_def nullish_def
  schema_flag_def schema_flags_def validated_def strict_schema_def Let_def

lemma upsert_result:
  assumes "\<And>x. f x = k"
    and "validated coerce \<lparr>new = True, upsert = True, runValidators = True\<rparr> k = Inr k'"
    and "department k' = d"
  shows "\<exists>db'. findOneAndUpdate coerce None db d f
                 \<lparr>new = True, upsert = True, runValidators = True\<rparr> = Inr (Some k', db')
               \<and> find (\<lambda>x. department x = d) db' = Some k'"
proof (cases "find (\<lambda>x. department x = d) db")
  case None
  then show ?thesis
    using assms by (simp add: findOneAndUpdate_def find_append_miss)
next
  case (Some old)
  have "find (\<lambda>x. department x = d) (update_first (\<lambda>x. department x = d) (\<lambda>_. k') db) = Some k'"
    using Some assms by (intro find_update_first_hit) simp_all
  then show ?thesis
    using Some assms by (simp add: findOneAndUpdate_def)
qed

lemma upsert_refused:
  assumes "\<And>x. f x = k"
    and "validated coerce \<lparr>new = True, upsert = True, runValidators = True\<rparr> k = Inl e"
  shows "findOneAndUpdate coerce None db d f
           \<lparr>new = True, upsert = True, runValidators = True\<rparr> = Inl e"
  using assms
  by (cases "find (\<lambda>x. department x = d) db") (simp_all add: findOneAndUpdate_def)

lemma schema_flag_boolean: "schema_flag coerce (JBool b) = Inr (JBool b)"
  by (simp add: schema_flag_def)

lemma validated_flags:
  assumes "schema_flag coerce v1 = Inr w1" and "schema_flag coerce v2 = Inr w2"
    and "schema_flag coerce v3 = Inr w3" and "schema_flag coerce v4 = Inr w4"
    and "schema_flag coerce v5 = Inr w5"
  shows "validated coerce \<lparr>new = True, upsert = True, runValidators = True\<rparr>
           \<lparr>department = d,
            permissions = Some \<lparr>myRequirements = v1, manageLocation = v2, myCalendar = v3,
                                allEvents = v4, taggedDepartments = v5\<rparr>,
            updatedBy = u\<rparr>
         = Inr \<lparr>department = d,
                permissions = Some \<lparr>myRequirements = w1, manageLocation = w2, myCalendar = w3,
                                    allEvents = w4, taggedDepartments = w5\<rparr>,
                updatedBy = u\<rparr>"
  using assms by (simp add: validated_def schema_flags_def)

lemma set_all_fields:
  "(doc::perm_doc)\<lparr>department := d, permissions := p, updatedBy := u\<rparr>
     = \<lparr>department = d, permissions = p, updatedBy = u\<rparr>"
  by (cases doc) simp

text \<open>
  C5. Whatever the collection holds before (a record of the department with any flags, or
  none), \<open>DELETE /:department\<close> answers 200 and leaves a record of the department whose
  five flags are all \<open>true\<close> and whose \<open>updatedBy\<close> is the requesting user.
\<close>

theorem reset_stores_all_true:
  "\<exists>r db'. delete_handler coerce None users req db = (r, db', [])
      \<and> status r = 200
      \<and> find (\<lambda>doc. department doc = params_department req) db' =
           Some \<lparr>department = params_department req,
                 permissions = Some \<lparr>myRequirements = JBool True, manageLocation = JBool True,
                                     myCalendar = JBool True, allEvents = JBool True,
                                     taggedDepartments = JBool True\<rparr>,
                 updatedBy = JStr (user_id req)\<rparr>"
proof -
  let ?k = "\<lparr>department = params_department req,
                 permissions = Some \<lparr>myRequirements = JBool True, manageLocation = JBool True,
                                     myCalendar = JBool True, allEvents = JBool True,
                                     taggedDepartments = JBool True\<rparr>,
                 updatedBy = JStr (user_id req)\<rparr>"
  let ?f = "\<lambda>doc::perm_doc. doc\<lparr>department := params_department req,
                         permissions :=
                           Some \<lparr>myRequirements = JBool True, manageLocation = JBool True,
                                 myCalendar = JBool True, allEvents = JBool True,
                                 taggedDepartments = JBool True\<rparr>,
                         updatedBy := JStr (user_id req)\<rparr>"
  have fk: "\<And>x. ?f x = ?k" by (simp add: set_all_fields)
  have "\<exists>db'. findOneAndUpdate coerce None db (params_department req) ?f \<lparr>new = True, upsert = True, runValidators = True\<rparr>
                 = Inr (Some ?k, db')
               \<and> find (\<lambda>x. department x = params_department req) db' = Some ?k"
    by (rule upsert_result [OF fk]) (simp_all add: validated_def schema_flags_def schema_flag_def)
  then obtain db' where
    "findOneAndUpdate coerce None db (params_department req) ?f \<lparr>new = True, upsert = True, runValidators = True\<rparr> = Inr (Some ?k, db')"
    "find (\<lambda>x. department x = params_department req) db' = Some ?k"
    by blast
  then show ?thesis
    by (simp add: delete_handler_def Let_def)
qed

lemma object_property_not_nullish: "get_prop v k = JObj fs \<Longrightarrow> \<not> nullish v"
  by (cases v) (simp_all add: nullish_def)

lemma put_valid_stores:
  assumes perms: "get_prop (body req) ''permissions'' = JObj fs"
    and mr: "get_prop (JObj fs) ''myRequirements'' = JBool a"
    and ml: "get_prop (JObj fs) ''manageLocation'' = JBool b"
    and mc: "get_prop (JObj fs) ''myCalendar'' = JBool c"
    and ae: "schema_flag coerce (js_or (get_prop (JObj fs) ''allEvents'') (JBool False)) = Inr a'"
    and td: "schema_flag coerce (js_or (get_prop (JObj fs) ''taggedDepartments'') (JBool False))
               = Inr t'"
  shows "\<exists>r db'. put_handler coerce None users req db = (r, db', [])
           \<and> status r = 200
           \<and> find (\<lambda>doc. department doc = params_department req) db' =
                Some \<lparr>department = params_department req,
                      permissions =
                        Some \<lparr>myRequirements = JBool a, manageLocation = JBool b,
                              myCalendar = JBool c, allEvents = a', taggedDepartments = t'\<rparr>,
                      updatedBy = JStr (user_id req)\<rparr>"
proof -
  let ?flags = "\<lparr>myRequirements = JBool a, manageLocation = JBool b, myCalendar = JBool c,
                 allEvents = js_or (get_prop (JObj fs) ''allEvents'') (JBool False),
                 taggedDepartments = js_or (get_prop (JObj fs) ''taggedDepartments'') (JBool False)\<rparr>"
  let ?k = "\<lparr>department = params_department req, permissions = Some ?flags,
              updatedBy = JStr (user_id req)\<rparr>"
  let ?k' = "\<lparr>department = params_department req,
               permissions = Some \<lparr>myRequirements = JBool a, manageLocation = JBool b,
                                   myCalendar = JBool c, allEvents = a', taggedDepartments = t'\<rparr>,
               updatedBy = JStr (user_id req)\<rparr>"
  let ?f = "\<lambda>doc::perm_doc. doc\<lparr>department := params_department req,
                                     permissions := Some ?flags,
                                     updatedBy := JStr (user_id req)\<rparr>"
  have fk: "\<And>x. ?f x = ?k" by (simp add: set_all_fields)
  have ok: "validated coerce \<lparr>new = True, upsert = True, runValidators = True\<rparr> ?k = Inr ?k'"
    by (rule validated_flags [OF schema_flag_boolean schema_flag_boolean schema_flag_boolean ae td])
  have "\<exists>db'. findOneAndUpdate coerce None db (params_department req) ?f
                 \<lparr>new = True, upsert = True, runValidators = True\<rparr> = Inr (Some ?k', db')
               \<and> find (\<lambda>x. department x = params_department req) db' = Some ?k'"
    by (rule upsert_result [OF fk ok]) simp
  then obtain db' where
    "findOneAndUpdate coerce None db (params_department req) ?f
       \<lparr>new = True, upsert = True, runValidators = True\<rparr> = Inr (Some ?k', db')"
    "find (\<lambda>x. department x = params_department req) db' = Some ?k'"
    by blast
  then show ?thesis
    using object_property_not_nullish [OF perms] perms mr ml mc
    by (simp add: put_handler_def Let_def)
qed

lemma put_schema_refuses:
  assumes perms: "get_prop (body req) ''permissions'' = JObj fs"
    and mr: "get_prop (JObj fs) ''myRequirements'' = JBool a"
    and ml: "get_prop (JObj fs) ''manageLocation'' = JBool b"
    and mc: "get_prop (JObj fs) ''myCalendar'' = JBool c"
    and no: "schema_flag coerce (js_or (get_prop (JObj fs) ''allEvents'') (JBool False)) = Inl e
             \<or> (\<exists>a'. schema_flag coerce (js_or (get_prop (JObj fs) ''allEvents'') (JBool False))
                        = Inr a'
                     \<and> schema_flag coerce
                          (js_or (get_prop (JObj fs) ''taggedDepartments'') (JBool False)) = Inl e)"
  shows "put_handler coerce None users req db = update_failed e db"
proof -
  let ?flags = "\<lparr>myRequirements = JBool a, manageLocation = JBool b, myCalendar = JBool c,
                 allEvents = js_or (get_prop (JObj fs) ''allEvents'') (JBool False),
                 taggedDepartments = js_or (get_prop (JObj fs) ''taggedDepartments'') (JBool False)\<rparr>"
  let ?k = "\<lparr>department = params_department req, permissions = Some ?flags,
              updatedBy = JStr (user_id req)\<rparr>"
  let ?f = "\<lambda>doc::perm_doc. doc\<lparr>department := params_department req,
                                     permissions := Some ?flags,
                                     updatedBy := JStr (user_id req)\<rparr>"
  have fk: "\<And>x. ?f x = ?k" by (simp add: set_all_fields)
  have "schema_flags coerce ?flags = Inl e"
    using no by (auto simp add: schema_flags_def schema_flag_boolean)
  then have "validated coerce \<lparr>new = True, upsert = True, runValidators = True\<rparr> ?k = Inl e"
    by (simp add: validated_def)
  then have "findOneAndUpdate coerce None db (params_department req) ?f
               \<lparr>new = True, upsert = True, runValidators = True\<rparr> = Inl e"
    by (rule upsert_refused [OF fk])
  then show ?thesis
    using object_property_not_nullish [OF perms] perms mr ml mc
    by (simp add: put_handler_def Let_def)
qed

lemma schema_flag_of_or:
  "schema_flag coerce (js_or v (JBool False)) = Inr w \<Longrightarrow> \<exists>x. w = JBool x"
  by (cases v) (auto simp add: schema_flag_def js_or_def split: sum.splits if_splits)

lemma get_complete_record:
  assumes "find (\<lambda>doc. department doc = params_department req) db = Some doc"
    and "permissions doc = Some p"
    and "myCalendar p \<noteq> JUndefined" and "allEvents p \<noteq> JUndefined"
    and "taggedDepartments p \<noteq> JUndefined"
  shows "get_handler coerce None fault2 req db =
           (\<lparr>status = 200, json = [(''success'', B True), (''data'', Doc doc)]\<rparr>, db, [])"
  using assms
  by (simp add: get_handler_def findOne_def backfill_myCalendar_def backfill_allEvents_def
        backfill_taggedDepartments_def typeof_undefined)

text \<open>
  C4. For a payload whose three mandatory flags are booleans and whose \<open>allEvents\<close> and
  \<open>taggedDepartments\<close> are each a boolean or absent, \<open>PUT /:department\<close> followed by
  \<open>GET /:department\<close> of the same department returns the flags of the payload, with an
  absent optional flag read as \<open>false\<close>. The instance after it is the example of the specification:
  \<open>{myRequirements: true, manageLocation: false, myCalendar: true}\<close> for Engineering is
  stored with \<open>allEvents: false\<close> and \<open>taggedDepartments: false\<close> added.
\<close>

theorem set_then_get_round_trip:
  assumes perms: "get_prop (body req) ''permissions'' = JObj fs"
    and mr: "get_prop (JObj fs) ''myRequirements'' = JBool a"
    and ml: "get_prop (JObj fs) ''manageLocation'' = JBool b"
    and mc: "get_prop (JObj fs) ''myCalendar'' = JBool c"
    and ae: "get_prop (JObj fs) ''allEvents'' = (case e of Some x \<Rightarrow> JBool x | None \<Rightarrow> JUndefined)"
    and td: "get_prop (JObj fs) ''taggedDepartments'' = (case t of Some x \<Rightarrow> JBool x | None \<Rightarrow> JUndefined)"
    and same: "params_department req' = params_department req"
  shows "\<exists>r db'. put_handler coerce None users req db = (r, db', [])
           \<and> status r = 200
           \<and> get_handler coerce None fault2 req' db' =
               (\<lparr>status = 200,
                 json = [(''success'', B True),
                         (''data'',
                          Doc \<lparr>department = params_department req,
                               permissions =
                                 Some \<lparr>myRequirements = JBool a, manageLocation = JBool b,
                                       myCalendar = JBool c,
                                       allEvents = JBool (case e of Some x \<Rightarrow> x | None \<Rightarrow> False),
                                       taggedDepartments =
                                         JBool (case t of Some x \<Rightarrow> x | None \<Rightarrow> False)\<rparr>,
                               updatedBy = JStr (user_id req)\<rparr>)]\<rparr>,
                db', [])"
proof -
  have e: "js_or (get_prop (JObj fs) ''allEvents'') (JBool False)
             = JBool (case e of Some x \<Rightarrow> x | None \<Rightarrow> False)"
    unfolding ae by (cases e) (simp_all add: js_or_def)
  have t: "js_or (get_prop (JObj fs) ''taggedDepartments'') (JBool False)
             = JBool (case t of Some x \<Rightarrow> x | None \<Rightarrow> False)"
    unfolding td by (cases t) (simp_all add: js_or_def)
  have e': "schema_flag coerce (js_or (get_prop (JObj fs) ''allEvents'') (JBool False))
              = Inr (JBool (case e of Some x \<Rightarrow> x | None \<Rightarrow> False))"
    unfolding e by (rule schema_flag_boolean)
  have t': "schema_flag coerce (js_or (get_prop (JObj fs) ''taggedDepartments'') (JBool False))
              = Inr (JBool (case t of Some x \<Rightarrow> x | None \<Rightarrow> False))"
    unfolding t by (rule schema_flag_boolean)
  obtain r db' where put: "put_handler coerce None users req db = (r, db', [])" "status r = 200"
    and stored: "find (\<lambda>doc. department doc = params_department req) db' =
                Some \<lparr>department = params_department req,
                      permissions =
                        Some \<lparr>myRequirements = JBool a, manageLocation = JBool b,
                              myCalendar = JBool c,
                              allEvents = JBool (case e of Some x \<Rightarrow> x | None \<Rightarrow> False),
                              taggedDepartments =
                                JBool (case t of Some x \<Rightarrow> x | None \<Rightarrow> False)\<rparr>,
                      updatedBy = JStr (user_id req)\<rparr>"
    using put_valid_stores [OF perms mr ml mc e' t', of users db] by blast
  have "get_handler coerce None fault2 req' db' =
          (\<lparr>status = 200,
            json = [(''success'', B True),
                    (''data'',
                     Doc \<lparr>department = params_department req,
                          permissions =
                            Some \<lparr>myRequirements = JBool a, manageLocation = JBool b,
                                  myCalendar = JBool c,
                                  allEvents = JBool (case e of Some x \<Rightarrow> x | None \<Rightarrow> False),
                                  taggedDepartments =
                                    JBool (case t of Some x \<Rightarrow> x | None \<Rightarrow> False)\<rparr>,
                          updatedBy = JStr (user_id req)\<rparr>)]\<rparr>,
           db', [])"
    using stored
    by (intro get_complete_record
          [where p = "\<lparr>myRequirements = JBool a, manageLocation = JBool b, myCalendar = JBool c,
                        allEvents = JBool (case e of Some x \<Rightarrow> x | None \<Rightarrow> False),
                        taggedDepartments = JBool (case t of Some x \<Rightarrow> x | None \<Rightarrow> False)\<rparr>"])
       (simp_all add: same)
  with put show ?thesis by blast
qed

theorem set_then_get_round_trip_witness:
  "put_handler strict_schema None (\<lambda>u. JNull)
     \<lparr>params_department = ''Engineering'',
      body = JObj [(''permissions'', JObj [(''myRequirements'', JBool True),
                                          (''manageLocation'', JBool False),
                                          (''myCalendar'', JBool True)])],
      user_id = ''u1''\<rparr> []
   = (\<lparr>status = 200,
       json = [(''success'', B True),
               (''message'', S ''Department permissions updated successfully''),
               (''data'', Doc \<lparr>department = ''Engineering'',
                              permissions = Some \<lparr>myRequirements = JBool True,
                                                  manageLocation = JBool False,
                                                  myCalendar = JBool True,
                                                  allEvents = JBool False,
                                                  taggedDepartments = JBool False\<rparr>,
                              updatedBy = JNull\<rparr>)]\<rparr>,
      [\<lparr>department = ''Engineering'',
        permissions = Some \<lparr>myRequirements = JBool True, manageLocation = JBool False,
                            myCalendar = JBool True, allEvents = JBool False,
                            taggedDepartments = JBool False\<rparr>,
        updatedBy = JStr ''u1''\<rparr>],
      [])
   \<and> get_handler strict_schema None None
        \<lparr>params_department = ''Engineering'', body = JUndefined, user_id = ''u2''\<rparr>
        [\<lparr>department = ''Engineering'',
          permissions = Some \<lparr>myRequirements = JBool True, manageLocation = JBool False,
                              myCalendar = JBool True, allEvents = JBool False,
                              taggedDepartments = JBool False\<rparr>,
          updatedBy = JStr ''u1''\<rparr>]
   = (\<lparr>status = 200,
       json = [(''success'', B True),
               (''data'', Doc \<lparr>department = ''Engineering'',
                              permissions = Some \<lparr>myRequirements = JBool True,
                                                  manageLocation = JBool False,
                                                  myCalendar = JBool True,
                                                  allEvents = JBool False,
                                                  taggedDepartments = JBool False\<rparr>,
                              updatedBy = JStr ''u1''\<rparr>)]\<rparr>,
      [\<lparr>department = ''Engineering'',
        permissions = Some \<lparr>myRequirements = JBool True, manageLocation = JBool False,
                            myCalendar = JBool True, allEvents = JBool False,
                            taggedDepartments = JBool False\<rparr>,
        updatedBy = JStr ''u1''\<rparr>],
      [])"
  using set_then_get_round_trip
          [where req = "\<lparr>params_department = ''Engineering'',
                body = JObj [(''permissions'', JObj [(''myRequirements'', JBool True),
                                                    (''manageLocation'', JBool False),
                                                    (''myCalendar'', JBool True)])],
                user_id = ''u1''\<rparr>"
             and fs = "[(''myRequirements'', JBool True), (''manageLocation'', JBool False),
                (''myCalendar'', JBool True)]"
             and a = True and b = False and c = True and e = None and t = None
             and req' = "\<lparr>params_department = ''Engineering'', body = JUndefined, user_id = ''u2''\<rparr>"
             and coerce = strict_schema and users = "\<lambda>u. JNull" and db = "[]" and ?fault2.0 = None]
  by (simp add: handler_defs)

text \<open>
  C10 as stated fails on a store whose flags are booleans, as the specification types
  them: with \<open>allEvents: "yes"\<close> the handler's validation passes and the string goes to the
  upsert, but a schema that refuses it leaves nothing stored (the answer is 500), and a
  schema that casts it stores the boolean, not the string.
\<close>

theorem put_truthy_optional_not_stored_as_is:
  "put_handler strict_schema None (\<lambda>u. JNull)
     \<lparr>params_department = ''Engineering'',
      body = JObj [(''permissions'', JObj [(''myRequirements'', JBool True),
                                          (''manageLocation'', JBool False),
                                          (''myCalendar'', JBool True),
                                          (''allEvents'', JStr ''yes'')])],
      user_id = ''u1''\<rparr> []
   = (\<lparr>status = 500,
       json = [(''success'', B False),
               (''message'', S ''Failed to update department permissions'')]\<rparr>,
      [],
      [(''Error updating department permissions:'', ErrorObj ''Cast to Boolean failed'')])
   \<and> put_handler (\<lambda>v. Inr True) None (\<lambda>u. JNull)
     \<lparr>params_department = ''Engineering'',
      body = JObj [(''permissions'', JObj [(''myRequirements'', JBool True),
                                          (''manageLocation'', JBool False),
                                          (''myCalendar'', JBool True),
                                          (''allEvents'', JStr ''yes'')])],
      user_id = ''u1''\<rparr> []
   = (\<lparr>status = 200,
       json = [(''success'', B True),
               (''message'', S ''Department permissions updated successfully''),
               (''data'', Doc \<lparr>department = ''Engineering'',
                              permissions = Some \<lparr>myRequirements = JBool True,
                                                  manageLocation = JBool False,
                                                  myCalendar = JBool True,
                                                  allEvents = JBool True,
                                                  taggedDepartments = JBool False\<rparr>,
                              updatedBy = JNull\<rparr>)]\<rparr>,
      [\<lparr>department = ''Engineering'',
        permissions = Some \<lparr>myRequirements = JBool True, manageLocation = JBool False,
                            myCalendar = JBool True, allEvents = JBool True,
                            taggedDepartments = JBool False\<rparr>,
        updatedBy = JStr ''u1''\<rparr>],
      [])"
  by (simp add: handler_defs)

text \<open>
  C10, amended. When the three mandatory flags are booleans, the handler's validation
  passes whatever the optional fields are (the answer is never 400), and \<open>value || false\<close>
  hands a truthy optional value unchanged to the upsert. What is stored is decided by
  the schema, whose flags are booleans: when it accepts both optional values the record
  holds the booleans it makes of them, and when it refuses one nothing is written and
  the answer is 500 with the fixed message.
\<close>

theorem put_truthy_optional_goes_through_schema:
  assumes perms: "get_prop (body req) ''permissions'' = JObj fs"
    and mr: "get_prop (JObj fs) ''myRequirements'' = JBool a"
    and ml: "get_prop (JObj fs) ''manageLocation'' = JBool b"
    and mc: "get_prop (JObj fs) ''myCalendar'' = JBool c"
  shows "status (fst (put_handler coerce fault users req db)) \<noteq> 400
         \<and> (truthy (get_prop (JObj fs) ''allEvents'')
              \<longrightarrow> js_or (get_prop (JObj fs) ''allEvents'') (JBool False)
                    = get_prop (JObj fs) ''allEvents'')
         \<and> (truthy (get_prop (JObj fs) ''taggedDepartments'')
              \<longrightarrow> js_or (get_prop (JObj fs) ''taggedDepartments'') (JBool False)
                    = get_prop (JObj fs) ''taggedDepartments'')
         \<and> (\<forall>a' t'.
               schema_flag coerce (js_or (get_prop (JObj fs) ''allEvents'') (JBool False)) = Inr a'
               \<and> schema_flag coerce (js_or (get_prop (JObj fs) ''taggedDepartments'') (JBool False))
                   = Inr t'
               \<longrightarrow> (\<exists>r db'. put_handler coerce None users req db = (r, db', [])
                      \<and> status r = 200
                      \<and> find (\<lambda>doc. department doc = params_department req) db' =
                           Some \<lparr>department = params_department req,
                                 permissions =
                                   Some \<lparr>myRequirements = JBool a, manageLocation = JBool b,
                                         myCalendar = JBool c, allEvents = a',
                                         taggedDepartments = t'\<rparr>,
                                 updatedBy = JStr (user_id req)\<rparr>)
                   \<and> (\<exists>x. a' = JBool x) \<and> (\<exists>x. t' = JBool x))
         \<and> (\<forall>e.
               schema_flag coerce (js_or (get_prop (JObj fs) ''allEvents'') (JBool False)) = Inl e
               \<or> (\<exists>a'. schema_flag coerce (js_or (get_prop (JObj fs) ''allEvents'') (JBool False))
                          = Inr a'
                       \<and> schema_flag coerce
                            (js_or (get_prop (JObj fs) ''taggedDepartments'') (JBool False)) = Inl e)
               \<longrightarrow> put_handler coerce None users req db =
                     (\<lparr>status = 500,
                       json = [(''success'', B False),
                               (''message'', S ''Failed to update department permissions'')]\<rparr>,
                      db,
                      [(''Error updating department permissions:'', e)]))"
proof -
  have passes: "status (fst (put_handler coerce fault users req db)) \<noteq> 400"
    using object_property_not_nullish [OF perms] perms mr ml mc
    by (simp add: put_handler_def Let_def update_failed_def split: sum.splits prod.splits)
  have raw: "truthy v \<longrightarrow> js_or v (JBool False) = v" for v
    by (simp add: js_or_def)
  have stored: "(\<exists>r db'. put_handler coerce None users req db = (r, db', [])
                      \<and> status r = 200
                      \<and> find (\<lambda>doc. department doc = params_department req) db' =
                           Some \<lparr>department = params_department req,
                                 permissions =
                                   Some \<lparr>myRequirements = JBool a, manageLocation = JBool b,
                                         myCalendar = JBool c, allEvents = a',
                                         taggedDepartments = t'\<rparr>,
                                 updatedBy = JStr (user_id req)\<rparr>)
                   \<and> (\<exists>x. a' = JBool x) \<and> (\<exists>x. t' = JBool x)"
    if "schema_flag coerce (js_or (get_prop (JObj fs) ''allEvents'') (JBool False)) = Inr a'"
      and "schema_flag coerce (js_or (get_prop (JObj fs) ''taggedDepartments'') (JBool False))
             = Inr t'"
    for a' t'
    using put_valid_stores [OF perms mr ml mc that, of users db]
      schema_flag_of_or [OF that(1)] schema_flag_of_or [OF that(2)]
    by blast
  have refused: "put_handler coerce None users req db =
                     (\<lparr>status = 500,
                       json = [(''success'', B False),
                               (''message'', S ''Failed to update department permissions'')]\<rparr>,
                      db,
                      [(''Error updating department permissions:'', e)])"
    if "schema_flag coerce (js_or (get_prop (JObj fs) ''allEvents'') (JBool False)) = Inl e
               \<or> (\<exists>a'. schema_flag coerce (js_or (get_prop (JObj fs) ''allEvents'') (JBool False))
                          = Inr a'
                       \<and> schema_flag coerce
                            (js_or (get_prop (JObj fs) ''taggedDepartments'') (JBool False)) = Inl e)"
    for e
    using put_schema_refuses [OF perms mr ml mc that, of users db]
    by (simp add: update_failed_def)
  from passes raw stored refused show ?thesis by blast
qed

theorem put_truthy_optional_goes_through_schema_witness:
  "put_handler (\<lambda>v. if v = JStr ''yes'' then Inr True else Inl (ErrorObj ''Cast to Boolean failed''))
     None (\<lambda>u. JNull)
     \<lparr>params_department = ''Engineering'',
      body = JObj [(''permissions'', JObj [(''myRequirements'', JBool True),
                                          (''manageLocation'', JBool False),
                                          (''myCalendar'', JBool True),
                                          (''allEvents'', JStr ''yes'')])],
      user_id = ''u1''\<rparr> []
   = (\<lparr>status = 200,
       json = [(''success'', B True),
               (''message'', S ''Department permissions updated successfully''),
               (''data'', Doc \<lparr>department = ''Engineering'',
                              permissions = Some \<lparr>myRequirements = JBool True,
                                                  manageLocation = JBool False,
                                                  myCalendar = JBool True,
                                                  allEvents = JBool True,
                                                  taggedDepartments = JBool False\<rparr>,
                              updatedBy = JNull\<rparr>)]\<rparr>,
      [\<lparr>department = ''Engineering'',
        permissions = Some \<lparr>myRequirements = JBool True, manageLocation = JBool False,
                            myCalendar = JBool True, allEvents = JBool True,
                            taggedDepartments = JBool False\<rparr>,
        updatedBy = JStr ''u1''\<rparr>],
      [])
   \<and> put_handler (\<lambda>v. if v = JStr ''yes'' then Inr True else Inl (ErrorObj ''Cast to Boolean failed''))
     None (\<lambda>u. JNull)
     \<lparr>params_department = ''Engineering'',
      body = JObj [(''permissions'', JObj [(''myRequirements'', JBool True),
                                          (''manageLocation'', JBool False),
                                          (''myCalendar'', JBool True),
                                          (''allEvents'', JStr ''maybe'')])],
      user_id = ''u1''\<rparr> []
   = (\<lparr>status = 500,
       json = [(''success'', B False),
               (''message'', S ''Failed to update department permissions'')]\<rparr>,
      [],
      [(''Error updating department permissions:'', ErrorObj ''Cast to Boolean failed'')])"
proof -
  have accepted:
    "put_handler (\<lambda>v. if v = JStr ''yes'' then Inr True else Inl (ErrorObj ''Cast to Boolean failed''))
       None (\<lambda>u. JNull)
       \<lparr>params_department = ''Engineering'',
        body = JObj [(''permissions'', JObj [(''myRequirements'', JBool True),
                                            (''manageLocation'', JBool False),
                                            (''myCalendar'', JBool True),
                                            (''allEvents'', JStr ''yes'')])],
        user_id = ''u1''\<rparr> []
     = (\<lparr>status = 200,
         json = [(''success'', B True),
                 (''message'', S ''Department permissions updated successfully''),
                 (''data'', Doc \<lparr>department = ''Engineering'',
                                permissions = Some \<lparr>myRequirements = JBool True,
                                                    manageLocation = JBool False,
                                                    myCalendar = JBool True,
                                                    allEvents = JBool True,
                                                    taggedDepartments = JBool False\<rparr>,
                                updatedBy = JNull\<rparr>)]\<rparr>,
        [\<lparr>department = ''Engineering'',
          permissions = Some \<lparr>myRequirements = JBool True, manageLocation = JBool False,
                              myCalendar = JBool True, allEvents = JBool True,
                              taggedDepartments = JBool False\<rparr>,
          updatedBy = JStr ''u1''\<rparr>],
        [])"
    by (simp add: handler_defs)
  have refused:
    "put_handler (\<lambda>v. if v = JStr ''yes'' then Inr True else Inl (ErrorObj ''Cast to Boolean failed''))
       None (\<lambda>u. JNull)
       \<lparr>params_department = ''Engineering'',
        body = JObj [(''permissions'', JObj [(''myRequirements'', JBool True),
                                            (''manageLocation'', JBool False),
                                            (''myCalendar'', JBool True),
                                            (''allEvents'', JStr ''maybe'')])],
        user_id = ''u1''\<rparr> []
     = (\<lparr>status = 500,
         json = [(''success'', B False),
                 (''message'', S ''Failed to update department permissions'')]\<rparr>,
        [],
        [(''Error updating department permissions:'', ErrorObj ''Cast to Boolean failed'')])"
    using put_truthy_optional_goes_through_schema
          [where req = "\<lparr>params_department = ''Engineering'',
                body = JObj [(''permissions'', JObj [(''myRequirements'', JBool True),
                                                    (''manageLocation'', JBool False),
                                                    (''myCalendar'', JBool True),
                                                    (''allEvents'', JStr ''maybe'')])],
                user_id = ''u1''\<rparr>"
             and fs = "[(''myRequirements'', JBool True), (''manageLocation'', JBool False),
                (''myCalendar'', JBool True), (''allEvents'', JStr ''maybe'')]"
             and a = True and b = False and c = True
             and coerce = "\<lambda>v. if v = JStr ''yes'' then Inr True
                                else Inl (ErrorObj ''Cast to Boolean failed'')"
             and fault = None and users = "\<lambda>u. JNull" and db = "[]"]
    by (simp add: schema_flag_def js_or_def)
  from accepted refused show ?thesis by simp
qed

lemma permissions_populate: "permissions (populate users doc) = permissions doc"
  by (cases "updatedBy doc") (simp_all add: populate_def)

lemma department_populate: "department (populate users doc) = department doc"
  by (cases "updatedBy doc") (simp_all add: populate_def)

lemma doc_permissions_same: "permissions doc = v \<Longrightarrow> doc\<lparr>permissions := v\<rparr> = doc"
  by (cases doc) auto

text \<open>
  C3 as stated fails for \<open>myRequirements\<close> (and likewise \<open>manageLocation\<close>): a stored
  record without it is returned by \<open>GET /:department\<close> still without it, not with
  \<open>false\<close>, and the collection is not written. It fails for the read of all records
  too: \<open>GET /\<close> returns a record without \<open>allEvents\<close> as it is stored and writes nothing.
\<close>

theorem get_leaves_myRequirements_missing:
  "get_handler strict_schema None None
     \<lparr>params_department = ''HR'', body = JUndefined, user_id = ''u1''\<rparr>
     [\<lparr>department = ''HR'',
       permissions = Some \<lparr>myRequirements = JUndefined, manageLocation = JBool True,
                           myCalendar = JBool True, allEvents = JBool True,
                           taggedDepartments = JBool True\<rparr>,
       updatedBy = JUndefined\<rparr>]
   = (\<lparr>status = 200,
       json = [(''success'', B True),
               (''data'', Doc \<lparr>department = ''HR'',
                              permissions = Some \<lparr>myRequirements = JUndefined,
                                                  manageLocation = JBool True,
                                                  myCalendar = JBool True,
                                                  allEvents = JBool True,
                                                  taggedDepartments = JBool True\<rparr>,
                              updatedBy = JUndefined\<rparr>)]\<rparr>,
      [\<lparr>department = ''HR'',
        permissions = Some \<lparr>myRequirements = JUndefined, manageLocation = JBool True,
                            myCalendar = JBool True, allEvents = JBool True,
                            taggedDepartments = JBool True\<rparr>,
        updatedBy = JUndefined\<rparr>],
      [])
   \<and> get_all_handler None (\<lambda>u. JNull)
        [\<lparr>department = ''HR'',
          permissions = Some \<lparr>myRequirements = JBool True, manageLocation = JBool True,
                              myCalendar = JBool True, allEvents = JUndefined,
                              taggedDepartments = JBool True\<rparr>,
          updatedBy = JUndefined\<rparr>]
   = (\<lparr>status = 200,
       json = [(''success'', B True),
               (''data'', Docs [\<lparr>department = ''HR'',
                                permissions = Some \<lparr>myRequirements = JBool True,
                                                    manageLocation = JBool True,
                                                    myCalendar = JBool True,
                                                    allEvents = JUndefined,
                                                    taggedDepartments = JBool True\<rparr>,
                                updatedBy = JUndefined\<rparr>])]\<rparr>,
      [\<lparr>department = ''HR'',
        permissions = Some \<lparr>myRequirements = JBool True, manageLocation = JBool True,
                            myCalendar = JBool True, allEvents = JUndefined,
                            taggedDepartments = JBool True\<rparr>,
        updatedBy = JUndefined\<rparr>],
      [])"
  by (simp add: handler_defs)

text \<open>
  C3, amended. For a stored record with a permissions subdocument, \<open>GET /:department\<close>
  returns each of \<open>myCalendar\<close>, \<open>allEvents\<close> and \<open>taggedDepartments\<close> that is missing as
  \<open>false\<close> and, when the storage does not fail, writes exactly those flags back to the
  record (the first of that department); \<open>myRequirements\<close>, \<open>manageLocation\<close> and every
  flag that is present are returned and left as stored, and a record without a
  subdocument is returned as it is. \<open>GET /\<close> writes nothing and returns every stored
  record, in the order of the departments and with the updater resolved, its department
  and its permissions as stored.
\<close>

theorem get_backfills_new_fields:
  assumes found: "find (\<lambda>x. department x = params_department req) db = Some doc"
  shows "get_handler coerce None None req db =
           (\<lparr>status = 200,
             json = [(''success'', B True),
                     (''data'',
                      Doc (doc\<lparr>permissions :=
                            map_option
                              (\<lambda>p. p\<lparr>myCalendar :=
                                        (if myCalendar p = JUndefined then JBool False else myCalendar p),
                                      allEvents :=
                                        (if allEvents p = JUndefined then JBool False else allEvents p),
                                      taggedDepartments :=
                                        (if taggedDepartments p = JUndefined then JBool False
                                         else taggedDepartments p)\<rparr>)
                              (permissions doc)\<rparr>))]\<rparr>,
            update_first (\<lambda>x. department x = params_department req)
              (\<lambda>_. doc\<lparr>permissions :=
                     map_option
                       (\<lambda>p. p\<lparr>myCalendar :=
                                 (if myCalendar p = JUndefined then JBool False else myCalendar p),
                               allEvents :=
                                 (if allEvents p = JUndefined then JBool False else allEvents p),
                               taggedDepartments :=
                                 (if taggedDepartments p = JUndefined then JBool False
                                  else taggedDepartments p)\<rparr>)
                       (permissions doc)\<rparr>)
              db,
            [])
         \<and> get_all_handler None users db =
             (\<lparr>status = 200,
               json = [(''success'', B True),
                       (''data'', Docs (sort_key department (map (populate users) db)))]\<rparr>,
              db, [])
         \<and> fst (snd (get_all_handler fault users db)) = db
         \<and> department (populate users x) = department x
         \<and> permissions (populate users x) = permissions x"
proof -
  let ?P = "\<lambda>x. department x = params_department req"
  have same: "update_first ?P (\<lambda>_. doc) db = db"
    using found by (rule update_first_same)
  have one: "get_handler coerce None None req db = (\<lparr>status = 200,
             json = [(''success'', B True),
                     (''data'',
                      Doc (doc\<lparr>permissions :=
                            map_option
                              (\<lambda>p. p\<lparr>myCalendar :=
                                        (if myCalendar p = JUndefined then JBool False else myCalendar p),
                                      allEvents :=
                                        (if allEvents p = JUndefined then JBool False else allEvents p),
                                      taggedDepartments :=
                                        (if taggedDepartments p = JUndefined then JBool False
                                         else taggedDepartments p)\<rparr>)
                              (permissions doc)\<rparr>))]\<rparr>,
            update_first ?P
              (\<lambda>_. doc\<lparr>permissions :=
                     map_option
                       (\<lambda>p. p\<lparr>myCalendar :=
                                 (if myCalendar p = JUndefined then JBool False else myCalendar p),
                               allEvents :=
                                 (if allEvents p = JUndefined then JBool False else allEvents p),
                               taggedDepartments :=
                                 (if taggedDepartments p = JUndefined then JBool False
                                  else taggedDepartments p)\<rparr>)
                       (permissions doc)\<rparr>)
              db,
            [])"
  proof (cases "permissions doc")
    case None
    then show ?thesis
      using found same
      by (simp add: get_handler_def findOne_def backfill_myCalendar_def backfill_allEvents_def
            backfill_taggedDepartments_def doc_permissions_same)
  next
    case (Some p)
    show ?thesis
      using found Some same
      by (cases "myCalendar p = JUndefined"; cases "allEvents p = JUndefined";
          cases "taggedDepartments p = JUndefined")
         (simp_all add: get_handler_def findOne_def findOneAndUpdate_def validated_def
            backfill_myCalendar_def backfill_allEvents_def backfill_taggedDepartments_def
            typeof_undefined apply_updates_def set_path_def set_flag_def doc_permissions_same)
  qed
  have two: "fst (snd (get_all_handler fault users db)) = db"
    by (cases fault) (simp_all add: get_all_handler_def find_all_def)
  have three: "get_all_handler None users db =
             (\<lparr>status = 200,
               json = [(''success'', B True),
                       (''data'', Docs (sort_key department (map (populate users) db)))]\<rparr>,
              db, [])"
    by (simp add: get_all_handler_def find_all_def)
  from one two three show ?thesis
    by (simp add: permissions_populate department_populate)
qed

theorem get_backfills_new_fields_witness:
  "find (\<lambda>x. department x = ''HR'')
     [\<lparr>department = ''HR'',
       permissions = Some \<lparr>myRequirements = JBool True, manageLocation = JBool False,
                           myCalendar = JBool True, allEvents = JUndefined,
                           taggedDepartments = JUndefined\<rparr>,
       updatedBy = JStr ''u1''\<rparr>]
   = Some \<lparr>department = ''HR'',
           permissions = Some \<lparr>myRequirements = JBool True, manageLocation = JBool False,
                               myCalendar = JBool True, allEvents = JUndefined,
                               taggedDepartments = JUndefined\<rparr>,
           updatedBy = JStr ''u1''\<rparr>
   \<and> get_handler strict_schema None None
        \<lparr>params_department = ''HR'', body = JUndefined, user_id = ''u2''\<rparr>
        [\<lparr>department = ''HR'',
          permissions = Some \<lparr>myRequirements = JBool True, manageLocation = JBool False,
                              myCalendar = JBool True, allEvents = JUndefined,
                              taggedDepartments = JUndefined\<rparr>,
          updatedBy = JStr ''u1''\<rparr>]
   = (\<lparr>status = 200,
       json = [(''success'', B True),
               (''data'', Doc \<lparr>department = ''HR'',
                              permissions = Some \<lparr>myRequirements = JBool True,
                                                  manageLocation = JBool False,
                                                  myCalendar = JBool True,
                                                  allEvents = JBool False,
                                                  taggedDepartments = JBool False\<rparr>,
                              updatedBy = JStr ''u1''\<rparr>)]\<rparr>,
      [\<lparr>department = ''HR'',
        permissions = Some \<lparr>myRequirements = JBool True, manageLocation = JBool False,
                            myCalendar = JBool True, allEvents = JBool False,
                            taggedDepartments = JBool False\<rparr>,
        updatedBy = JStr ''u1''\<rparr>],
      [])"
  using get_backfills_new_fields
          [where req = "\<lparr>params_department = ''HR'', body = JUndefined, user_id = ''u2''\<rparr>"
             and db = "[\<lparr>department = ''HR'',
                 permissions = Some \<lparr>myRequirements = JBool True, manageLocation = JBool False,
                                     myCalendar = JBool True, allEvents = JUndefined,
                                     taggedDepartments = JUndefined\<rparr>,
                 updatedBy = JStr ''u1''\<rparr>]"
             and doc = "\<lparr>department = ''HR'',
                permissions = Some \<lparr>myRequirements = JBool True, manageLocation = JBool False,
                                    myCalendar = JBool True, allEvents = JUndefined,
                                    taggedDepartments = JUndefined\<rparr>,
                updatedBy = JStr ''u1''\<rparr>"
             and coerce = strict_schema and fault = None and users = "\<lambda>u. JNull"]
  by simp

text \<open>
  C8 as stated fails for the manual cleanup: when \<open>runCleanupNow\<close> throws an \<open>Error\<close>, the
  500 response carries the error's message under the key \<open>error\<close>.
\<close>

theorem cleanup_failure_discloses_error_message:
  "cleanup_now_handler (Inl (ErrorObj ''disk full''))
   = (\<lparr>status = 500,
       json = [(''success'', B False), (''message'', S ''Cleanup failed''),
               (''error'', S ''disk full'')]\<rparr>,
      [(''Manual cleanup failed:'', ErrorObj ''disk full'')])"
  by (simp add: cleanup_now_handler_def)

text \<open>
  C8, amended. A storage failure in a permissions operation (either store call of
  \<open>GET /:department\<close>, the query of \<open>GET /\<close>, the upsert of \<open>PUT\<close> and \<open>DELETE\<close>) is answered
  with status 500, \<open>success: false\<close> and a fixed message that does not depend on the error;
  the error goes to \<open>console.error\<close> only, and the collection is unchanged.
  \<open>POST /api/cleanup-now\<close> answers \<open>{success: true, message, result}\<close> when the cleanup
  returns, and 500 with \<open>success: false\<close>, the message \<open>Cleanup failed\<close> and an \<open>error\<close> field
  when it throws: the thrown \<open>Error\<close>'s message, or \<open>Unknown error\<close> for any other thrown
  value.
\<close>

theorem failures_answer_500:
  "get_handler coerce (Some e) fault2 req db =
     (\<lparr>status = 500,
       json = [(''success'', B False), (''message'', S ''Failed to fetch department permissions'')]\<rparr>,
      db, [(''Error fetching department permissions:'', e)])
   \<and> (find (\<lambda>x. department x = params_department req) db = Some doc
        \<and> permissions doc = Some p
        \<and> (myCalendar p = JUndefined \<or> allEvents p = JUndefined \<or> taggedDepartments p = JUndefined)
       \<longrightarrow> get_handler coerce None (Some e) req db =
             (\<lparr>status = 500,
               json = [(''success'', B False),
                       (''message'', S ''Failed to fetch department permissions'')]\<rparr>,
              db, [(''Error fetching department permissions:'', e)]))
   \<and> get_all_handler (Some e) users db =
     (\<lparr>status = 500,
       json = [(''success'', B False), (''message'', S ''Failed to fetch department permissions'')]\<rparr>,
      db, [(''Error fetching all department permissions:'', e)])
   \<and> (get_prop (body req) ''permissions'' = JObj fs
        \<and> get_prop (JObj fs) ''myRequirements'' = JBool a
        \<and> get_prop (JObj fs) ''manageLocation'' = JBool b
        \<and> get_prop (JObj fs) ''myCalendar'' = JBool c
       \<longrightarrow> put_handler coerce (Some e) users req db =
             (\<lparr>status = 500,
               json = [(''success'', B False),
                       (''message'', S ''Failed to update department permissions'')]\<rparr>,
              db, [(''Error updating department permissions:'', e)]))
   \<and> delete_handler coerce (Some e) users req db =
     (\<lparr>status = 500,
       json = [(''success'', B False), (''message'', S ''Failed to reset department permissions'')]\<rparr>,
      db, [(''Error resetting department permissions:'', e)])
   \<and> cleanup_now_handler (Inr result) =
     (\<lparr>status = 200,
       json = [(''success'', B True), (''message'', S ''Cleanup completed successfully''),
               (''result'', J result)]\<rparr>,
      [])
   \<and> cleanup_now_handler (Inl (ErrorObj m)) =
     (\<lparr>status = 500,
       json = [(''success'', B False), (''message'', S ''Cleanup failed''), (''error'', S m)]\<rparr>,
      [(''Manual cleanup failed:'', ErrorObj m)])
   \<and> cleanup_now_handler (Inl (NonError v)) =
     (\<lparr>status = 500,
       json = [(''success'', B False), (''message'', S ''Cleanup failed''),
               (''error'', S ''Unknown error'')]\<rparr>,
      [(''Manual cleanup failed:'', NonError v)])"
proof -
  have get2: "get_handler coerce None (Some e) req db = fetch_failed e db"
    if "find (\<lambda>x. department x = params_department req) db = Some doc"
      and "permissions doc = Some p"
      and "myCalendar p = JUndefined \<or> allEvents p = JUndefined \<or> taggedDepartments p = JUndefined"
    using that
    by (cases "myCalendar p = JUndefined"; cases "allEvents p = JUndefined";
        cases "taggedDepartments p = JUndefined")
       (simp_all add: get_handler_def findOne_def findOneAndUpdate_def backfill_myCalendar_def
          backfill_allEvents_def backfill_taggedDepartments_def typeof_undefined)
  have put: "put_handler coerce (Some e) users req db = update_failed e db"
    if "get_prop (body req) ''permissions'' = JObj fs"
      and "get_prop (JObj fs) ''myRequirements'' = JBool a"
      and "get_prop (JObj fs) ''manageLocation'' = JBool b"
      and "get_prop (JObj fs) ''myCalendar'' = JBool c"
    using that object_property_not_nullish [OF that(1)]
    by (simp add: put_handler_def findOneAndUpdate_def Let_def)
  show ?thesis
    using get2 put
    by (simp add: get_handler_def get_all_handler_def delete_handler_def findOne_def
          findOneAndUpdate_def find_all_def fetch_failed_def update_failed_def
          cleanup_now_handler_def)
qed

theorem failures_answer_500_witness:
  "get_handler strict_schema None (Some (ErrorObj ''connection lost''))
     \<lparr>params_department = ''HR'', body = JUndefined, user_id = ''u2''\<rparr>
     [\<lparr>department = ''HR'',
       permissions = Some \<lparr>myRequirements = JBool True, manageLocation = JBool False,
                           myCalendar = JBool True, allEvents = JUndefined,
                           taggedDepartments = JUndefined\<rparr>,
       updatedBy = JStr ''u1''\<rparr>]
   = (\<lparr>status = 500,
       json = [(''success'', B False), (''message'', S ''Failed to fetch department permissions'')]\<rparr>,
      [\<lparr>department = ''HR'',
        permissions = Some \<lparr>myRequirements = JBool True, manageLocation = JBool False,
                            myCalendar = JBool True, allEvents = JUndefined,
                            taggedDepartments = JUndefined\<rparr>,
        updatedBy = JStr ''u1''\<rparr>],
      [(''Error fetching department permissions:'', ErrorObj ''connection lost'')])
   \<and> put_handler strict_schema (Some (ErrorObj ''connection lost'')) (\<lambda>u. JNull)
        \<lparr>params_department = ''HR'',
         body = JObj [(''permissions'', JObj [(''myRequirements'', JBool True),
                                             (''manageLocation'', JBool False),
                                             (''myCalendar'', JBool True)])],
         user_id = ''u1''\<rparr> []
   = (\<lparr>status = 500,
       json = [(''success'', B False), (''message'', S ''Failed to update department permissions'')]\<rparr>,
      [], [(''Error updating department permissions:'', ErrorObj ''connection lost'')])"
  using failures_answer_500
          [where e = "ErrorObj ''connection lost''"
             and req = "\<lparr>params_department = ''HR'', body = JUndefined, user_id = ''u2''\<rparr>"
             and db = "[\<lparr>department = ''HR'',
                 permissions = Some \<lparr>myRequirements = JBool True, manageLocation = JBool False,
                                     myCalendar = JBool True, allEvents = JUndefined,
                                     taggedDepartments = JUndefined\<rparr>,
                 updatedBy = JStr ''u1''\<rparr>]"
             and doc = "\<lparr>department = ''HR'',
                permissions = Some \<lparr>myRequirements = JBool True, manageLocation = JBool False,
                                    myCalendar = JBool True, allEvents = JUndefined,
                                    taggedDepartments = JUndefined\<rparr>,
                updatedBy = JStr ''u1''\<rparr>"
             and p = "\<lparr>myRequirements = JBool True, manageLocation = JBool False,
                myCalendar = JBool True, allEvents = JUndefined, taggedDepartments = JUndefined\<rparr>"]
        failures_answer_500
          [where e = "ErrorObj ''connection lost''"
             and req = "\<lparr>params_department = ''HR'',
                body = JObj [(''permissions'', JObj [(''myRequirements'', JBool True),
                                                    (''manageLocation'', JBool False),
                                                    (''myCalendar'', JBool True)])],
                user_id = ''u1''\<rparr>"
             and db = "[]"
             and fs = "[(''myRequirements'', JBool True), (''manageLocation'', JBool False),
                (''myCalendar'', JBool True)]"
             and a = True and b = False and c = True and users = "\<lambda>u. JNull"]
  by (simp add: nullish_def)

section \<open>Facts about the allow-list and the presence map\<close>

lemma indexOf_lower: "- 1 \<le> indexOf xs x"
  by (induction xs) (auto simp add: Let_def)

lemma indexOf_member: "(indexOf xs x \<noteq> - 1) = (x \<in> set xs)"
proof (induction xs)
  case Nil
  show ?case by simp
next
  case (Cons y ys)
  have "indexOf ys x + 1 \<noteq> - 1"
    using indexOf_lower [of ys x] by arith
  with Cons show ?case by (auto simp add: Let_def)
qed

lemma Map_set_keys:
  "map fst (Map_set m k v) = (if k \<in> set (map fst m) then map fst m else map fst m @ [k])"
  by (induction m) (force split: if_splits)+

lemma Map_set_distinct: "distinct (map fst m) \<Longrightarrow> distinct (map fst (Map_set m k v))"
  by (simp add: Map_set_keys)

lemma Map_set_entry:
  "distinct (map fst m) \<Longrightarrow> filter (\<lambda>e. fst e = k) (Map_set m k v) = [(k, v)]"
proof (induction m)
  case Nil
  show ?case by simp
next
  case (Cons e m)
  obtain k' v' where e: "e = (k', v')" by (cases e)
  show ?case
  proof (cases "k' = k")
    case True
    then have "\<forall>x \<in> set m. fst x \<noteq> k" using Cons.prems e by auto
    then have "filter (\<lambda>e. fst e = k) m = []" by (simp add: filter_empty_conv)
    with True e show ?thesis by simp
  next
    case False
    with Cons e show ?thesis by simp
  qed
qed

lemma Map_set_others:
  "filter (\<lambda>e. fst e \<noteq> k) (Map_set m k v) = filter (\<lambda>e. fst e \<noteq> k) m"
  by (induction m) auto

lemma map_of_entry:
  "distinct (map fst m) \<Longrightarrow> map_of m k = Some v \<Longrightarrow> filter (\<lambda>e. fst e = k) m = [(k, v)]"
proof (induction m)
  case Nil
  then show ?case by simp
next
  case (Cons e m)
  obtain k' v' where e: "e = (k', v')" by (cases e)
  show ?case
  proof (cases "k' = k")
    case True
    then have "\<forall>x \<in> set m. fst x \<noteq> k" using Cons.prems e by auto
    then have "filter (\<lambda>e. fst e = k) m = []" by (simp add: filter_empty_conv)
    with True e Cons.prems show ?thesis by simp
  next
    case False
    with Cons e show ?thesis by simp
  qed
qed

lemma Map_has_get: "Map_has m k = (\<exists>v. Map_get m k = Some v)"
  unfolding Map_has_def Map_get_def
  by (metis domI domIff dom_map_of_conv_image_fst not_Some_eq)

lemma join_user_room_distinct:
  "distinct (map fst m) \<Longrightarrow> distinct (map fst (join_user_room c u m))"
  by (simp add: join_user_room_def Map_set_distinct split: option.splits)

lemma join_user_room_entry:
  assumes "distinct (map fst m)"
  shows "filter (\<lambda>e. fst e = u) (join_user_room c u m) = [(u, c)]"
proof (cases "Map_get m u")
  case None
  then have "\<not> Map_has m u" by (simp add: Map_has_get)
  then show ?thesis using assms by (simp add: join_user_room_def Map_set_entry)
next
  case (Some old)
  then have has: "Map_has m u" by (simp add: Map_has_get)
  show ?thesis
  proof (cases "old = c")
    case True
    with Some has assms show ?thesis
      by (simp add: join_user_room_def Map_get_def map_of_entry)
  next
    case False
    with Some has assms show ?thesis
      by (simp add: join_user_room_def Map_set_entry)
  qed
qed

lemma join_user_room_others:
  "filter (\<lambda>e. fst e \<noteq> u) (join_user_room c u m) = filter (\<lambda>e. fst e \<noteq> u) m"
  by (simp add: join_user_room_def Map_set_others split: option.splits)

lemma joins_distinct:
  "distinct (map fst m) \<Longrightarrow> distinct (map fst (fold (\<lambda>c. join_user_room c u) cs m))"
  by (induction cs arbitrary: m) (simp_all add: join_user_room_distinct)

lemma joins_others:
  "filter (\<lambda>e. fst e \<noteq> u) (fold (\<lambda>c. join_user_room c u) cs m) = filter (\<lambda>e. fst e \<noteq> u) m"
  by (induction cs arbitrary: m) (simp_all add: join_user_room_others)

lemma Map_delete_distinct: "distinct (map fst m) \<Longrightarrow> distinct (map fst (Map_delete m k))"
  by (simp add: Map_delete_def distinct_map_filter)

lemma disconnect_scan_find:
  "disconnect_scan c es m =
     (case find (\<lambda>e. snd e = c) es of None \<Rightarrow> m | Some e \<Rightarrow> Map_delete m (fst e))"
  by (induction es) auto

lemma disconnect_distinct: "distinct (map fst m) \<Longrightarrow> distinct (map fst (disconnect c m))"
  by (simp add: disconnect_def disconnect_scan_find Map_delete_distinct split: option.splits)

lemma find_first_match:
  "\<forall>x \<in> set xs. \<not> P x \<Longrightarrow> P y \<Longrightarrow> find P (xs @ y # ys) = Some y"
  by (induction xs) auto

section \<open>The server: the claims\<close>

text \<open>
  C6. After any non-empty sequence of \<open>join-user-room\<close> events for one user id, whatever
  the connection ids, the presence map has exactly one entry for that user id, and it
  holds the connection id of the last join; the entries of the other users are as
  before. A join from the connection id the map already holds for the user leaves the
  map as it is.
\<close>

theorem presence_last_join_wins:
  assumes keys: "distinct (map fst m)" and joins: "cs \<noteq> []"
  shows "filter (\<lambda>e. fst e = u) (fold (\<lambda>c. join_user_room c u) cs m) = [(u, last cs)]
         \<and> filter (\<lambda>e. fst e \<noteq> u) (fold (\<lambda>c. join_user_room c u) cs m)
             = filter (\<lambda>e. fst e \<noteq> u) m
         \<and> (Map_get m u = Some c \<longrightarrow> join_user_room c u m = m)"
proof -
  obtain bs b where cs: "cs = bs @ [b]"
    using joins by (metis rev_exhaust)
  have "distinct (map fst (fold (\<lambda>c. join_user_room c u) bs m))"
    using keys by (rule joins_distinct)
  then have one: "filter (\<lambda>e. fst e = u) (fold (\<lambda>c. join_user_room c u) cs m) = [(u, last cs)]"
    by (simp add: cs join_user_room_entry)
  have same: "join_user_room c u m = m" if "Map_get m u = Some c"
    using that by (simp add: join_user_room_def Map_has_get)
  from one same show ?thesis by (simp add: joins_others)
qed

theorem presence_last_join_wins_witness:
  "distinct (map fst [(''alice'', ''s1''), (''bob'', ''s2'')])
   \<and> fold (\<lambda>c. join_user_room c ''alice'') [''s3'', ''s3'', ''s4'']
        [(''alice'', ''s1''), (''bob'', ''s2'')]
      = [(''alice'', ''s4''), (''bob'', ''s2'')]
   \<and> join_user_room ''s1'' ''alice'' [(''alice'', ''s1''), (''bob'', ''s2'')]
      = [(''alice'', ''s1''), (''bob'', ''s2'')]"
  using presence_last_join_wins
          [of "[(''alice'', ''s1''), (''bob'', ''s2'')]" "[''s3'', ''s3'', ''s4'']" "''alice''" "''s1''"]
  by (simp add: join_user_room_def Map_has_def Map_get_def)

text \<open>
  C7. The disconnect handler leaves the presence map as it is when no entry holds the
  disconnecting connection id, and otherwise removes exactly the first entry, in
  iteration order, that holds it: every other entry, also a later one holding the same
  connection id, stays, in the same order.
\<close>

theorem disconnect_removes_first_match:
  assumes keys: "distinct (map fst m)"
  shows "(c \<notin> snd ` set m \<longrightarrow> disconnect c m = m)
         \<and> (\<forall>xs u ys. m = xs @ (u, c) # ys \<and> c \<notin> snd ` set xs
               \<longrightarrow> disconnect c m = xs @ ys)"
proof -
  have none: "disconnect c m = m" if "c \<notin> snd ` set m"
  proof -
    have "find (\<lambda>e. snd e = c) m = None"
      using that by (force simp add: find_None_iff)
    then show ?thesis by (simp add: disconnect_def disconnect_scan_find)
  qed
  have first: "disconnect c m = xs @ ys" if m: "m = xs @ (u, c) # ys" and before: "c \<notin> snd ` set xs"
    for xs u ys
  proof -
    have "find (\<lambda>e. snd e = c) (xs @ (u, c) # ys) = Some (u, c)"
      using before by (intro find_first_match) auto
    then have scan: "disconnect c m = Map_delete m u"
      by (simp add: disconnect_def disconnect_scan_find m)
    have "\<forall>e \<in> set xs. fst e \<noteq> u" and "\<forall>e \<in> set ys. fst e \<noteq> u"
      using keys unfolding m by auto
    then have "filter (\<lambda>e. fst e \<noteq> u) xs = xs" and "filter (\<lambda>e. fst e \<noteq> u) ys = ys"
      by (simp_all add: filter_id_conv)
    then have "Map_delete m u = xs @ ys"
      by (simp add: Map_delete_def m)
    with scan show ?thesis by simp
  qed
  from none first show ?thesis by blast
qed

theorem disconnect_removes_first_match_witness:
  "distinct (map fst [(''alice'', ''s1''), (''bob'', ''s2''), (''carol'', ''s2'')])
   \<and> disconnect ''s2'' [(''alice'', ''s1''), (''bob'', ''s2''), (''carol'', ''s2'')]
      = [(''alice'', ''s1''), (''carol'', ''s2'')]
   \<and> disconnect ''s9'' [(''alice'', ''s1''), (''bob'', ''s2''), (''carol'', ''s2'')]
      = [(''alice'', ''s1''), (''bob'', ''s2''), (''carol'', ''s2'')]"
  using disconnect_removes_first_match
          [of "[(''alice'', ''s1''), (''bob'', ''s2''), (''carol'', ''s2'')]" "''s2''"]
        disconnect_removes_first_match
          [of "[(''alice'', ''s1''), (''bob'', ''s2''), (''carol'', ''s2'')]" "''s9''"]
  by (simp add: disconnect_def Map_delete_def)

text \<open>
  C9. A request or handshake without an Origin header is accepted by both origin
  callbacks, the Socket.IO one and the HTTP one, whatever the allow-list is. A callback
  blocks only a request that presents a non-empty Origin that is not in the allow-list,
  and accepts a presented non-empty Origin exactly when the allow-list has it.
\<close>

theorem cors_accepts_missing_origin:
  "io_cors_origin allowed None = Allowed
   \<and> http_cors_origin allowed None = Allowed
   \<and> (io_cors_origin allowed origin \<noteq> Allowed
        \<longrightarrow> (\<exists>v. origin = Some v \<and> v \<noteq> [] \<and> v \<notin> set allowed))
   \<and> (http_cors_origin allowed origin \<noteq> Allowed
        \<longrightarrow> (\<exists>v. origin = Some v \<and> v \<noteq> [] \<and> v \<notin> set allowed))
   \<and> (v \<noteq> [] \<longrightarrow> (io_cors_origin allowed (Some v) = Allowed) = (v \<in> set allowed))
   \<and> (v \<noteq> [] \<longrightarrow> (http_cors_origin allowed (Some v) = Allowed) = (v \<in> set allowed))"
  by (cases origin) (auto simp add: io_cors_origin_def http_cors_origin_def indexOf_member)

theorem cors_accepts_missing_origin_witness:
  "io_cors_origin (allowedOrigins None) None = Allowed
   \<and> http_cors_origin (allowedOrigins (Some ''https://a.example,https://b.example'')) None = Allowed
   \<and> http_cors_origin (allowedOrigins (Some ''https://a.example,https://b.example''))
        (Some ''https://b.example'') = Allowed
   \<and> io_cors_origin (allowedOrigins None) (Some ''http://evil.example'')
        = Blocked ''Not allowed by CORS''
   \<and> http_cors_origin (allowedOrigins None) (Some ''http://evil.example'')
        = Blocked ''Not allowed by CORS''"
  using cors_accepts_missing_origin
          [of "allowedOrigins None" "Some ''http://evil.example''" "''http://evil.example''"]
        cors_accepts_missing_origin
          [of "allowedOrigins (Some ''https://a.example,https://b.example'')"
              "Some ''https://b.example''" "''https://b.example''"]
  by (simp add: allowedOrigins_def io_cors_origin_def http_cors_origin_def)

end
